theory Spec2Isabelle
  imports Main "HOL-Library.Word"
begin

section \<open>The page as the two scripts see it\<close>

text \<open>
  Both scripts work on elements of the rendered page. An element is an object with
  identity, so the page is a store from addresses to elements, and the scripts hold
  addresses. Only the properties the scripts read or write are kept:
  \<^item> \<open>classList\<close>: the element's class tokens, in order;
  \<^item> \<open>textContent\<close>: its text, a sequence of UTF-16 code units as in a JavaScript string;
  \<^item> \<open>data_size\<close>: the \<open>data-size\<close> attribute, \<open>None\<close> when the element has none;
  \<^item> \<open>value_prop\<close>: what was last assigned to the element's \<open>value\<close> property;
  \<^item> \<open>disabled\<close>: the element's \<open>disabled\<close> property.
\<close>

type_synonym addr = nat

type_synonym code_unit = "16 word"

datatype jsval = Undefined | Str string

record element =
  classList :: "string list"
  textContent :: "code_unit list"
  data_size :: "string option"
  value_prop :: jsval
  disabled :: bool

text \<open>The three operations of a class token list that the scripts call.\<close>

definition classList_contains :: "element \<Rightarrow> string \<Rightarrow> bool" where
  "classList_contains e t = (t \<in> set (classList e))"

definition classList_add :: "element \<Rightarrow> string \<Rightarrow> element" where
  "classList_add e t = (if t \<in> set (classList e) then e else e\<lparr>classList := classList e @ [t]\<rparr>)"

definition classList_remove :: "element \<Rightarrow> string \<Rightarrow> element" where
  "classList_remove e t = e\<lparr>classList := removeAll t (classList e)\<rparr>"

text \<open>\<open>button.dataset.size\<close>: the attribute's value, or \<open>undefined\<close> without the attribute.\<close>

definition dataset_size :: "element \<Rightarrow> jsval" where
  "dataset_size e = (case data_size e of None \<Rightarrow> Undefined | Some s \<Rightarrow> Str s)"

record page =
  dom :: "addr \<Rightarrow> element"

text \<open>
  A listener either runs to its end or stops at a \<open>TypeError\<close> (a property access on
  \<open>null\<close>). The host reports the exception and the page keeps every mutation made
  before it, so a listener returns its outcome together with the page.
\<close>

datatype outcome = Completed | TypeError

section \<open>product.js: the size selector\<close>

text \<open>
  Lines 2 to 4 bind three constants when the script is loaded: the static list of
  the elements matching \<open>.option\<close>, and the elements with the identifiers
  \<open>selectedSize\<close> and \<open>addToCartBtn\<close> (\<open>None\<close> for \<open>null\<close>, when the page has none).
\<close>

record product_page = page +
  sizeButtons :: "addr list"
  sizeInput :: "addr option"
  addToCartBtn :: "addr option"

text \<open>Line 11: \<open>sizeButtons.forEach(b => b.classList.remove("active"))\<close>.\<close>

primrec forEach_remove_active :: "addr list \<Rightarrow> (addr \<Rightarrow> element) \<Rightarrow> (addr \<Rightarrow> element)" where
  "forEach_remove_active [] d = d"
| "forEach_remove_active (b # bs) d =
     forEach_remove_active bs (d(b := classList_remove (d b) ''active''))"

text \<open>Lines 7 to 22: the listener attached to \<open>button\<close>.\<close>

definition click_handler :: "product_page \<Rightarrow> addr \<Rightarrow> outcome \<times> product_page" where
  "click_handler p button =
     (if classList_contains (dom p button) ''disabled'' then (Completed, p)
      else
        let d1 = forEach_remove_active (sizeButtons p) (dom p);
            d2 = d1(button := classList_add (d1 button) ''active'')
        in case sizeInput p of
             None \<Rightarrow> (TypeError, p\<lparr>dom := d2\<rparr>)
           | Some i \<Rightarrow>
               let d3 = d2(i := (d2 i)\<lparr>value_prop := dataset_size (d2 button)\<rparr>)
               in case addToCartBtn p of
                    None \<Rightarrow> (TypeError, p\<lparr>dom := d3\<rparr>)
                  | Some a \<Rightarrow>
                      let d4 = d3(a := (d3 a)\<lparr>disabled := False\<rparr>);
                          d5 = d4(a := classList_remove (d4 a) ''btn--disabled'')
                      in (Completed, p\<lparr>dom := d5\<rparr>))"

text \<open>
  Line 6 attaches the listener to each element of \<open>sizeButtons\<close> and to nothing else:
  a click on such an element runs its listener, a click elsewhere runs none.
\<close>

definition click :: "product_page \<Rightarrow> addr \<Rightarrow> product_page" where
  "click p target = (if target \<in> set (sizeButtons p) then snd (click_handler p target) else p)"

primrec clicks :: "product_page \<Rightarrow> addr list \<Rightarrow> product_page" where
  "clicks p [] = p"
| "clicks p (t # ts) = clicks (click p t) ts"

text \<open>The options that carry a marker, in the order of \<open>sizeButtons\<close>.\<close>

definition active_options :: "product_page \<Rightarrow> addr list" where
  "active_options p = filter (\<lambda>b. classList_contains (dom p b) ''active'') (sizeButtons p)"

definition disabled_options :: "product_page \<Rightarrow> addr list" where
  "disabled_options p = filter (\<lambda>b. classList_contains (dom p b) ''disabled'') (sizeButtons p)"

definition at_most_one_active :: "product_page \<Rightarrow> bool" where
  "at_most_one_active p = (length (remdups (active_options p)) \<le> 1)"

section \<open>The toast script\<close>

text \<open>
  \<open>String.prototype.trim\<close> strips the white space and line terminator code units of
  ECMAScript from both ends of a string.
\<close>

definition is_white_space :: "code_unit \<Rightarrow> bool" where
  "is_white_space c =
     (c \<in> set [0x0009, 0x000A, 0x000B, 0x000C, 0x000D, 0x0020, 0x00A0, 0x1680,
                0x2028, 0x2029, 0x202F, 0x205F, 0x3000, 0xFEFF]
      \<or> (0x2000 \<le> c \<and> c \<le> 0x200A))"

definition trim :: "code_unit list \<Rightarrow> code_unit list" where
  "trim s = rev (dropWhile is_white_space (rev (dropWhile is_white_space s)))"

text \<open>
  The page of the toast script also has a clock, in milliseconds, and the timers that
  are pending, each with the time it is due at. \<open>toast\<close> is what
  \<open>document.getElementById("toast")\<close> returns. The only callback the script ever
  schedules is the function of lines 11 to 13, closed over the toast element.
\<close>

datatype callback = Remove_show addr

record toast_page = page +
  toast :: "addr option"
  now :: nat
  timers :: "(nat \<times> callback) list"

definition setTimeout :: "callback \<Rightarrow> nat \<Rightarrow> toast_page \<Rightarrow> toast_page" where
  "setTimeout cb delay p = p\<lparr>timers := timers p @ [(now p + delay, cb)]\<rparr>"

text \<open>Lines 1 to 15: the listener for \<open>DOMContentLoaded\<close>.\<close>

definition DOMContentLoaded_handler :: "toast_page \<Rightarrow> outcome \<times> toast_page" where
  "DOMContentLoaded_handler p =
     (case toast p of
        None \<Rightarrow> (Completed, p)
      | Some t \<Rightarrow>
          let message = trim (textContent (dom p t))
          in if length message > 0
             then let p1 = p\<lparr>dom := (dom p)(t := classList_add (dom p t) ''show'')\<rparr>
                  in (Completed, setTimeout (Remove_show t) 2600 p1)
             else (Completed, p))"

text \<open>Lines 11 to 13, when the timer fires.\<close>

fun run_callback :: "callback \<Rightarrow> toast_page \<Rightarrow> toast_page" where
  "run_callback (Remove_show t) p = p\<lparr>dom := (dom p)(t := classList_remove (dom p t) ''show'')\<rparr>"

text \<open>
  The host's side of \<open>setTimeout\<close>, on a simulated clock: when \<open>d\<close> milliseconds
  pass, the timers that have become due are taken off the list and their callbacks
  run, earliest first, and in the order they were set when due together.
\<close>

definition advance :: "nat \<Rightarrow> toast_page \<Rightarrow> toast_page" where
  "advance d p =
     (let t = now p + d;
          ready = filter (\<lambda>tm. fst tm \<le> t) (timers p);
          rest = filter (\<lambda>tm. \<not> fst tm \<le> t) (timers p)
      in fold (\<lambda>tm. run_callback (snd tm)) (sort_key fst ready) (p\<lparr>now := t, timers := rest\<rparr>))"

section \<open>Closed form of a click, for the proofs\<close>

text \<open>
  What a click that passes the guard of line 8 leaves in the class list of an element:
  \<open>mark\<close> is the effect of lines 11 and 14 (the marker is cleared on the options and
  put on the clicked one), \<open>unmark\<close> the effect of line 21.
\<close>

definition mark :: "'a \<Rightarrow> bool \<Rightarrow> bool \<Rightarrow> 'a list \<Rightarrow> 'a list" where
  "mark s cleared chosen c =
     (let c1 = (if cleared then removeAll s c else c)
      in if chosen then (if s \<in> set c1 then c1 else c1 @ [s]) else c1)"

definition unmark :: "'a \<Rightarrow> bool \<Rightarrow> 'a list \<Rightarrow> 'a list" where
  "unmark t hit c = (if hit then removeAll t c else c)"

text \<open>
  Line 21 is reached only when line 17 did not stop at a missing input, and then it
  touches the add-to-cart control.
\<close>

definition cart_hit :: "product_page \<Rightarrow> addr \<Rightarrow> bool" where
  "cart_hit p x = (sizeInput p \<noteq> None \<and> addToCartBtn p = Some x)"

text \<open>
  The element at address \<open>x\<close> after the listener of \<open>b\<close> has passed the guard, and
  how the listener ends. Lemma \<open>click_handler_eq\<close> below proves that \<open>click_handler\<close> computes
  exactly this.
\<close>

definition after_click :: "product_page \<Rightarrow> addr \<Rightarrow> addr \<Rightarrow> element" where
  "after_click p b x =
     (dom p x)\<lparr>classList := unmark ''btn--disabled'' (cart_hit p x)
                   (mark ''active'' (x \<in> set (sizeButtons p)) (x = b) (classList (dom p x))),
              value_prop := (if sizeInput p = Some x then dataset_size (dom p b) else value_prop (dom p x)),
              disabled := (if cart_hit p x then False else disabled (dom p x))\<rparr>"

definition click_outcome :: "product_page \<Rightarrow> outcome" where
  "click_outcome p = (if sizeInput p = None \<or> addToCartBtn p = None then TypeError else Completed)"

definition cart_enabled :: "product_page \<Rightarrow> addr \<Rightarrow> bool" where
  "cart_enabled p a = (\<not> disabled (dom p a) \<and> \<not> classList_contains (dom p a) ''btn--disabled'')"

section \<open>Example pages\<close>

text \<open>
  A product page with five options: S, M and L, an XL that is sold out (disabled), and
  one option whose markup has no \<open>data-size\<close> attribute; the hidden input is at address
  5 and the add-to-cart control, disabled at load, at address 6.
\<close>

definition blank :: element where
  "blank = \<lparr>classList = [], textContent = [], data_size = None, value_prop = Undefined, disabled = False\<rparr>"

definition shop_page :: product_page where
  "shop_page =
     \<lparr>dom = (\<lambda>_. blank)
        (0 := blank\<lparr>classList := [''option''], data_size := Some ''S''\<rparr>,
         1 := blank\<lparr>classList := [''option''], data_size := Some ''M''\<rparr>,
         2 := blank\<lparr>classList := [''option''], data_size := Some ''L''\<rparr>,
         3 := blank\<lparr>classList := [''option'', ''disabled''], data_size := Some ''XL''\<rparr>,
         4 := blank\<lparr>classList := [''option'']\<rparr>,
         5 := blank\<lparr>value_prop := Str []\<rparr>,
         6 := blank\<lparr>classList := [''btn'', ''btn--disabled''], disabled := True\<rparr>),
      sizeButtons = [0, 1, 2, 3, 4], sizeInput = Some 5, addToCartBtn = Some 6\<rparr>"

text \<open>
  The same page when its markup already marks both S and M \<open>active\<close> at load.
\<close>

definition premarked_page :: product_page where
  "premarked_page =
     shop_page\<lparr>dom := (dom shop_page)
        (0 := blank\<lparr>classList := [''option'', ''active''], data_size := Some ''S''\<rparr>,
         1 := blank\<lparr>classList := [''option'', ''active''], data_size := Some ''M''\<rparr>)\<rparr>"

text \<open>
  A page with a toast element at address 0 that holds the given text, at page-ready:
  time 0 and no timer pending. \<open>item_added\<close> is the text \<open>Item added\<close>.
\<close>

definition toast_ex :: "code_unit list \<Rightarrow> toast_page" where
  "toast_ex txt =
     \<lparr>dom = (\<lambda>_. blank)(0 := blank\<lparr>classList := [''toast''], textContent := txt\<rparr>),
      toast = Some 0, now = 0, timers = []\<rparr>"

definition item_added :: "code_unit list" where
  "item_added = [0x49, 0x74, 0x65, 0x6D, 0x20, 0x61, 0x64, 0x64, 0x65, 0x64]"

section \<open>Properties of the size selector\<close>

subsection \<open>The listener in closed form\<close>

lemma forEach_apply: "forEach_remove_active bs d x = (if x \<in> set bs then classList_remove (d x) ''active'' else d x)"
  by (induction bs arbitrary: d) (auto simp: classList_remove_def)

lemma mem_mark: "u \<in> set (mark s cleared chosen c) \<longleftrightarrow>
    (if u = s then chosen \<or> (\<not> cleared \<and> s \<in> set c) else u \<in> set c)"
  by (auto simp: mark_def Let_def)

lemma mem_unmark: "u \<in> set (unmark t hit c) \<longleftrightarrow> u \<in> set c \<and> (hit \<longrightarrow> u \<noteq> t)"
  by (auto simp: unmark_def)

lemma mark_unmark_idem:
  "s \<noteq> t \<Longrightarrow> unmark t hit (mark s cleared chosen (unmark t hit (mark s cleared chosen c)))
     = unmark t hit (mark s cleared chosen c)"
  by (auto simp: mark_def unmark_def Let_def)

lemma click_handler_eq:
  "click_handler p b =
     (if ''disabled'' \<in> set (classList (dom p b)) then (Completed, p)
      else (click_outcome p, p\<lparr>dom := after_click p b\<rparr>))"
proof -
  define sel where "sel = (\<lambda>x. (dom p x)\<lparr>classList := mark ''active'' (x \<in> set (sizeButtons p)) (x = b) (classList (dom p x))\<rparr>)"
  have sel: "(forEach_remove_active (sizeButtons p) (dom p))
     (b := classList_add (forEach_remove_active (sizeButtons p) (dom p) b) ''active'') = sel"
    by (rule ext) (simp add: sel_def mark_def forEach_apply classList_add_def classList_remove_def Let_def)
  have ds: "dataset_size (sel b) = dataset_size (dom p b)"
    by (simp add: sel_def dataset_size_def)
  have 1: "after_click p b = sel" if "sizeInput p = None"
    by (rule ext) (simp add: after_click_def sel_def cart_hit_def unmark_def that)
  have 2: "after_click p b = sel(i := (sel i)\<lparr>value_prop := dataset_size (dom p b)\<rparr>)"
    if "sizeInput p = Some i" "addToCartBtn p = None" for i
    by (rule ext) (simp add: after_click_def sel_def cart_hit_def unmark_def that)
  have 3: "after_click p b =
          (sel(i := (sel i)\<lparr>value_prop := dataset_size (dom p b)\<rparr>))
            (a := classList_remove (((sel(i := (sel i)\<lparr>value_prop := dataset_size (dom p b)\<rparr>)) a)\<lparr>disabled := False\<rparr>) ''btn--disabled'')"
    if "sizeInput p = Some i" "addToCartBtn p = Some a" for i a
    by (rule ext) (simp add: after_click_def sel_def cart_hit_def unmark_def that classList_remove_def)
  show ?thesis
    unfolding click_handler_def Let_def sel classList_contains_def ds
    by (simp add: click_outcome_def 1 2 3 split: option.splits)
qed

lemma classList_after_click:
  "classList (after_click p b x) =
     unmark ''btn--disabled'' (cart_hit p x)
       (mark ''active'' (x \<in> set (sizeButtons p)) (x = b) (classList (dom p x)))"
  by (simp add: after_click_def)

lemma value_prop_after_click:
  "value_prop (after_click p b x) = (if sizeInput p = Some x then dataset_size (dom p b) else value_prop (dom p x))"
  by (simp add: after_click_def)

lemma disabled_after_click:
  "disabled (after_click p b x) = (if cart_hit p x then False else disabled (dom p x))"
  by (simp add: after_click_def)

lemma disabled_mem_after_click:
  "''disabled'' \<in> set (classList (after_click p b x)) \<longleftrightarrow> ''disabled'' \<in> set (classList (dom p x))"
proof -
  have "''disabled'' \<noteq> ''active''" "''disabled'' \<noteq> ''btn--disabled''" by simp_all
  then show ?thesis
    unfolding classList_after_click mem_unmark mem_mark by simp
qed

lemma active_mem_after_click:
  "''active'' \<in> set (classList (after_click p b x)) \<longleftrightarrow>
     x = b \<or> (x \<notin> set (sizeButtons p) \<and> ''active'' \<in> set (classList (dom p x)))"
proof -
  have "''active'' \<noteq> ''btn--disabled''" by simp
  then show ?thesis
    unfolding classList_after_click mem_unmark mem_mark by simp
qed

lemma btn_disabled_mem_after_click:
  "''btn--disabled'' \<in> set (classList (after_click p b x)) \<longleftrightarrow>
     ''btn--disabled'' \<in> set (classList (dom p x)) \<and> \<not> cart_hit p x"
proof -
  have "''btn--disabled'' \<noteq> ''active''" by simp
  then show ?thesis
    unfolding classList_after_click mem_unmark mem_mark by simp
qed

lemma after_click_idem:
  "after_click (p\<lparr>dom := after_click p b\<rparr>) b = after_click p b"
proof (rule ext)
  fix x
  have ne: "''active'' \<noteq> ''btn--disabled''" by simp
  have ds: "dataset_size (after_click p b b) = dataset_size (dom p b)"
    by (simp add: dataset_size_def after_click_def)
  have hit: "cart_hit (p\<lparr>dom := after_click p b\<rparr>) x = cart_hit p x"
    by (simp add: cart_hit_def)
  have "classList (after_click (p\<lparr>dom := after_click p b\<rparr>) b x) = classList (after_click p b x)"
    by (simp add: classList_after_click hit mark_unmark_idem [OF ne])
  then show "after_click (p\<lparr>dom := after_click p b\<rparr>) b x = after_click p b x"
    unfolding after_click_def [of "p\<lparr>dom := after_click p b\<rparr>"] hit
    by (simp add: ds) (simp add: after_click_def)
qed

lemma click_handler_idem: "click_handler (snd (click_handler p b)) b = click_handler p b"
  by (simp add: click_handler_eq disabled_mem_after_click after_click_idem click_outcome_def)

text \<open>
  The three constants of lines 2 to 4 are never assigned again.
\<close>

lemma sizeButtons_click_handler [simp]: "sizeButtons (snd (click_handler p b)) = sizeButtons p"
  by (simp add: click_handler_eq)

lemma sizeInput_click_handler [simp]: "sizeInput (snd (click_handler p b)) = sizeInput p"
  by (simp add: click_handler_eq)

lemma addToCartBtn_click_handler [simp]: "addToCartBtn (snd (click_handler p b)) = addToCartBtn p"
  by (simp add: click_handler_eq)

lemma sizeButtons_click [simp]: "sizeButtons (click p t) = sizeButtons p"
  by (simp add: click_def)

lemma sizeInput_click [simp]: "sizeInput (click p t) = sizeInput p"
  by (simp add: click_def)

lemma addToCartBtn_click [simp]: "addToCartBtn (click p t) = addToCartBtn p"
  by (simp add: click_def)

lemma sizeButtons_clicks [simp]: "sizeButtons (clicks p ts) = sizeButtons p"
  by (induction ts arbitrary: p) simp_all

lemma addToCartBtn_clicks [simp]: "addToCartBtn (clicks p ts) = addToCartBtn p"
  by (induction ts arbitrary: p) simp_all

lemmas eval_defs = shop_page_def blank_def click_def click_handler_def Let_def
  classList_contains_def classList_add_def classList_remove_def dataset_size_def
  active_options_def disabled_options_def at_most_one_active_def

subsection \<open>Mutual exclusion of the selection\<close>

lemma active_options_valid_click:
  assumes "''disabled'' \<notin> set (classList (dom p b))"
  shows "active_options (snd (click_handler p b)) = filter (\<lambda>x. x = b) (sizeButtons p)"
  using assms
  by (auto simp: active_options_def click_handler_eq classList_contains_def active_mem_after_click
      intro: filter_cong)

lemma length_remdups_filter_eq: "length (remdups (filter (\<lambda>x. x = b) xs)) \<le> Suc 0"
proof -
  have "set (filter (\<lambda>x. x = b) xs) \<subseteq> {b}" by auto
  then have "card (set (filter (\<lambda>x. x = b) xs)) \<le> card {b}"
    by (intro card_mono) simp_all
  then show ?thesis by (simp add: length_remdups_card_conv)
qed

lemma click_cases: "at_most_one_active (click p t) \<or> click p t = p"
proof (cases "t \<in> set (sizeButtons p) \<and> ''disabled'' \<notin> set (classList (dom p t))")
  case True
  then have "active_options (click p t) = filter (\<lambda>x. x = t) (sizeButtons p)"
    by (simp add: click_def active_options_valid_click)
  then show ?thesis by (simp add: at_most_one_active_def length_remdups_filter_eq)
next
  case False
  then have "click p t = p" by (auto simp: click_def click_handler_def classList_contains_def)
  then show ?thesis ..
qed

lemma clicks_cases:
  "at_most_one_active (clicks p ts) \<or> active_options (clicks p ts) = active_options p"
proof (induction ts arbitrary: p)
  case Nil
  then show ?case by simp
next
  case (Cons t ts)
  from Cons.IH [of "click p t"] click_cases [of p t] show ?case
    by (auto simp: at_most_one_active_def)
qed

text \<open>
  Claim C1, as amended. For every sequence of clicks that starts from a page whose
  markup marks at most one option \<open>active\<close>, at most one option carries the marker at
  any time (first conjunct). From any page, after any clicks, either at most one option
  is marked or the marked options are still those of the markup (second conjunct).
  After a click on an option that is not disabled, that option and only that option
  carries the marker (third conjunct).

  The starting page matters because the script never looks at the markers the markup
  came with: nothing clears them at load, and line 8 returns before line 11, so until
  the first click that passes the guard the selection is the one of the markup.
\<close>

theorem at_most_one_option_selected:
  "(at_most_one_active p \<longrightarrow> at_most_one_active (clicks p ts))
   \<and> (at_most_one_active (clicks p ts) \<or> active_options (clicks p ts) = active_options p)
   \<and> (button \<in> set (sizeButtons p) \<and> \<not> classList_contains (dom p button) ''disabled'' \<longrightarrow>
        set (active_options (click p button)) = {button} \<and> at_most_one_active (click p button))"
proof -
  have 1: "at_most_one_active (clicks p ts) \<or> active_options (clicks p ts) = active_options p"
    by (rule clicks_cases)
  then have 2: "at_most_one_active p \<longrightarrow> at_most_one_active (clicks p ts)"
    by (auto simp: at_most_one_active_def)
  have 3: "set (active_options (click p button)) = {button} \<and> at_most_one_active (click p button)"
    if "button \<in> set (sizeButtons p)" "\<not> classList_contains (dom p button) ''disabled''"
  proof -
    have "active_options (click p button) = filter (\<lambda>x. x = button) (sizeButtons p)"
      using that by (simp add: click_def active_options_valid_click classList_contains_def)
    with that(1) show ?thesis
      by (auto simp: at_most_one_active_def length_remdups_filter_eq)
  qed
  from 1 2 3 show ?thesis by blast
qed

text \<open>
  On the example page: after S, only S is marked; after S then L, only L.
\<close>

theorem at_most_one_option_selected_witness:
  "at_most_one_active shop_page
   \<and> at_most_one_active (clicks shop_page [0, 2])
   \<and> at_most_one_active (clicks shop_page [0])
   \<and> 2 \<in> set (sizeButtons (click shop_page 0))
   \<and> \<not> classList_contains (dom (click shop_page 0) 2) ''disabled''
   \<and> active_options (click shop_page 0) = [0]
   \<and> set (active_options (click (click shop_page 0) 2)) = {2}
   \<and> active_options (clicks shop_page [0, 2]) = [2]"
  using at_most_one_option_selected [of shop_page "[0, 2]" 0]
    at_most_one_option_selected [of "click shop_page 0" "[]" 2]
  by (simp add: eval_defs)

text \<open>
  Without the condition on the markup the invariant fails: on the page that marks both
  S and M at load, three clicks on the sold-out XL each return at line 8, and S and M
  are both still marked.
\<close>

theorem at_most_one_option_selected_counterexample:
  "active_options premarked_page = [0, 1]
   \<and> active_options (clicks premarked_page [3, 3, 3]) = [0, 1]
   \<and> \<not> at_most_one_active (clicks premarked_page [3, 3, 3])"
  by (simp add: premarked_page_def eval_defs)

subsection \<open>A click on an available option\<close>

text \<open>
  Claim C2. A click on an option that does not carry the \<open>disabled\<close> marker copies
  the option's size data value into the hidden input, whatever the input held before,
  marks the option \<open>active\<close>, clears the \<open>disabled\<close> flag of the add-to-cart control
  and removes its \<open>btn--disabled\<close> marker. The hidden input and the control are the
  elements the page has under the two identifiers; the listener then runs to its end.
\<close>

theorem click_copies_size_selects_and_enables:
  assumes "\<not> classList_contains (dom p button) ''disabled''"
    and "sizeInput p = Some i" and "addToCartBtn p = Some a"
  shows "fst (click_handler p button) = Completed
    \<and> value_prop (dom (snd (click_handler p button)) i) = dataset_size (dom p button)
    \<and> classList_contains (dom (snd (click_handler p button)) button) ''active''
    \<and> \<not> disabled (dom (snd (click_handler p button)) a)
    \<and> \<not> classList_contains (dom (snd (click_handler p button)) a) ''btn--disabled''"
  using assms
  by (simp add: click_handler_eq classList_contains_def click_outcome_def
      active_mem_after_click btn_disabled_mem_after_click cart_hit_def
      value_prop_after_click disabled_after_click)

text \<open>
  Clicking M on the example page: only M is marked, the input holds \<open>M\<close> and the
  control is enabled.
\<close>

theorem click_copies_size_selects_and_enables_witness:
  "\<not> classList_contains (dom shop_page 1) ''disabled''
    \<and> sizeInput shop_page = Some 5 \<and> addToCartBtn shop_page = Some 6
    \<and> fst (click_handler shop_page 1) = Completed
    \<and> value_prop (dom (snd (click_handler shop_page 1)) 5) = Str ''M''
    \<and> active_options (snd (click_handler shop_page 1)) = [1]
    \<and> \<not> disabled (dom (snd (click_handler shop_page 1)) 6)
    \<and> \<not> classList_contains (dom (snd (click_handler shop_page 1)) 6) ''btn--disabled''"
  using click_copies_size_selects_and_enables [of shop_page 1 5 6]
  by (simp add: eval_defs)

subsection \<open>A click on a disabled option\<close>

text \<open>
  Claim C3. A click on an option that carries the \<open>disabled\<close> marker is a no-op: the
  listener returns at line 8 and the whole page, so the markers of all options, the
  value of the hidden input and the state of the add-to-cart control, is unchanged.
\<close>

theorem disabled_click_is_noop:
  "classList_contains (dom p button) ''disabled'' \<Longrightarrow>
     click_handler p button = (Completed, p) \<and> click p button = p"
  by (simp add: click_handler_def click_def)

text \<open>
  After M has been chosen on the example page, a click on the sold-out XL leaves M
  marked and \<open>M\<close> in the input.
\<close>

theorem disabled_click_is_noop_witness:
  "classList_contains (dom (click shop_page 1) 3) ''disabled''
    \<and> click_handler (click shop_page 1) 3 = (Completed, click shop_page 1)
    \<and> click (click shop_page 1) 3 = click shop_page 1
    \<and> active_options (click (click shop_page 1) 3) = [1]
    \<and> value_prop (dom (click (click shop_page 1) 3) 5) = Str ''M''"
  using disabled_click_is_noop [of "click shop_page 1" 3]
  by (simp add: eval_defs)

subsection \<open>The add-to-cart control stays enabled\<close>

lemma cart_enabled_click: "cart_enabled p a \<Longrightarrow> cart_enabled (click p t) a"
  by (simp add: cart_enabled_def click_def click_handler_eq classList_contains_def
      btn_disabled_mem_after_click disabled_after_click)

lemma cart_enabled_clicks: "cart_enabled p a \<Longrightarrow> cart_enabled (clicks p ts) a"
  by (induction ts arbitrary: p) (simp_all add: cart_enabled_click)

text \<open>
  Claim C4. Once a click on an option that is not disabled has enabled the add-to-cart
  control, no later click on any element, disabled or not, disables it again: after
  every further sequence of clicks its \<open>disabled\<close> flag is cleared and its
  \<open>btn--disabled\<close> marker absent.
\<close>

theorem cart_stays_enabled:
  assumes "button \<in> set (sizeButtons p)"
    and "\<not> classList_contains (dom p button) ''disabled''"
    and "sizeInput p = Some i" and "addToCartBtn p = Some a"
  shows "\<not> disabled (dom (clicks (click p button) ts) a)
    \<and> \<not> classList_contains (dom (clicks (click p button) ts) a) ''btn--disabled''"
proof -
  have "cart_enabled (click p button) a"
    using assms
    by (simp add: cart_enabled_def click_def click_handler_eq classList_contains_def
        btn_disabled_mem_after_click disabled_after_click cart_hit_def)
  then have "cart_enabled (clicks (click p button) ts) a"
    by (rule cart_enabled_clicks)
  then show ?thesis by (simp add: cart_enabled_def)
qed

text \<open>
  On the example page the control is disabled at load; after a click on S it stays
  enabled through clicks on XL (disabled), L and XL again.
\<close>

theorem cart_stays_enabled_witness:
  "0 \<in> set (sizeButtons shop_page)
    \<and> \<not> classList_contains (dom shop_page 0) ''disabled''
    \<and> sizeInput shop_page = Some 5 \<and> addToCartBtn shop_page = Some 6
    \<and> disabled (dom shop_page 6) \<and> classList_contains (dom shop_page 6) ''btn--disabled''
    \<and> \<not> disabled (dom (clicks (click shop_page 0) [3, 2, 3]) 6)
    \<and> \<not> classList_contains (dom (clicks (click shop_page 0) [3, 2, 3]) 6) ''btn--disabled''"
  using cart_stays_enabled [of 0 shop_page 5 6 "[3, 2, 3]"]
  by (simp add: eval_defs)

subsection \<open>Clicking the same option again\<close>

text \<open>
  Claim C8. Clicking the same option twice in a row is idempotent: for every page and
  every option that is not disabled, the listener run twice leaves the same page (the
  markers, the value of the hidden input, the state of the add-to-cart control and all
  the rest) and ends the same way as the listener run once.
\<close>

theorem repeated_click_idempotent:
  "\<not> classList_contains (dom p button) ''disabled'' \<Longrightarrow>
     click_handler (snd (click_handler p button)) button = click_handler p button
     \<and> click (click p button) button = click p button"
  by (simp add: click_handler_idem click_def)

text \<open>
  Clicking L twice on the example page.
\<close>

theorem repeated_click_idempotent_witness:
  "\<not> classList_contains (dom shop_page 2) ''disabled''
    \<and> click_handler (snd (click_handler shop_page 2)) 2 = click_handler shop_page 2
    \<and> click (click shop_page 2) 2 = click shop_page 2
    \<and> active_options (click (click shop_page 2) 2) = [2]"
  using repeated_click_idempotent [of shop_page 2]
  by (simp add: eval_defs)

subsection \<open>The disabled markers\<close>

lemma disabled_mem_click:
  "''disabled'' \<in> set (classList (dom (click p t) x)) \<longleftrightarrow> ''disabled'' \<in> set (classList (dom p x))"
  by (simp add: click_def click_handler_eq disabled_mem_after_click)

lemma disabled_mem_clicks:
  "''disabled'' \<in> set (classList (dom (clicks p ts) x)) \<longleftrightarrow> ''disabled'' \<in> set (classList (dom p x))"
  by (induction ts arbitrary: p) (simp_all add: disabled_mem_click)

text \<open>
  Claim C9. The listener never adds or removes the \<open>disabled\<close> marker of any element:
  after every sequence of clicks the list of options is the one bound at load and the
  disabled options are exactly those of the starting page.
\<close>

theorem disabled_markers_never_change:
  "sizeButtons (clicks p ts) = sizeButtons p
   \<and> disabled_options (clicks p ts) = disabled_options p
   \<and> (\<forall>x. classList_contains (dom (clicks p ts) x) ''disabled'' = classList_contains (dom p x) ''disabled'')"
  by (simp add: disabled_options_def classList_contains_def disabled_mem_clicks)

subsection \<open>An option without a size data value\<close>

text \<open>
  Claim C10. A click on an option that is not disabled proceeds when the option has no
  \<open>data-size\<close> attribute: the listener runs to its end, the option is marked, the
  hidden input is assigned \<open>undefined\<close> in place of what it held, and the add-to-cart
  control is enabled. Nothing in the listener looks at whether the attribute is there.
\<close>

theorem click_without_size_data_proceeds:
  assumes "\<not> classList_contains (dom p button) ''disabled''"
    and "data_size (dom p button) = None"
    and "sizeInput p = Some i" and "addToCartBtn p = Some a"
  shows "fst (click_handler p button) = Completed
    \<and> classList_contains (dom (snd (click_handler p button)) button) ''active''
    \<and> value_prop (dom (snd (click_handler p button)) i) = Undefined
    \<and> \<not> disabled (dom (snd (click_handler p button)) a)
    \<and> \<not> classList_contains (dom (snd (click_handler p button)) a) ''btn--disabled''"
  using assms
  by (simp add: click_handler_eq classList_contains_def click_outcome_def
      active_mem_after_click btn_disabled_mem_after_click cart_hit_def
      value_prop_after_click disabled_after_click dataset_size_def)

text \<open>
  On the example page, after S has been chosen (the input holds \<open>S\<close>), a click on
  the option without the attribute.
\<close>

theorem click_without_size_data_proceeds_witness:
  "\<not> classList_contains (dom (click shop_page 0) 4) ''disabled''
    \<and> data_size (dom (click shop_page 0) 4) = None
    \<and> sizeInput (click shop_page 0) = Some 5 \<and> addToCartBtn (click shop_page 0) = Some 6
    \<and> value_prop (dom (click shop_page 0) 5) = Str ''S''
    \<and> fst (click_handler (click shop_page 0) 4) = Completed
    \<and> active_options (snd (click_handler (click shop_page 0) 4)) = [4]
    \<and> value_prop (dom (snd (click_handler (click shop_page 0) 4)) 5) = Undefined
    \<and> \<not> disabled (dom (snd (click_handler (click shop_page 0) 4)) 6)
    \<and> \<not> classList_contains (dom (snd (click_handler (click shop_page 0) 4)) 6) ''btn--disabled''"
  using click_without_size_data_proceeds [of "click shop_page 0" 4 5 6]
  by (simp add: eval_defs)

section \<open>Properties of the toast script\<close>

lemma item_added_text: "map of_char ''Item added'' = item_added"
  by (simp add: item_added_def)

lemma trim_all_white_space: "list_all is_white_space s \<Longrightarrow> trim s = []"
proof -
  assume "list_all is_white_space s"
  then have e: "dropWhile is_white_space s = []"
    by (simp add: list_all_iff)
  show ?thesis unfolding trim_def e by simp
qed

text \<open>
  The \<open>show\<close> marker of an element survives a callback, a run of callbacks and a
  stretch of time exactly when no callback that ran was the removal for that element.
\<close>

lemma show_mem_run_callback:
  "''show'' \<in> set (classList (dom (run_callback cb p) x)) \<longleftrightarrow>
     ''show'' \<in> set (classList (dom p x)) \<and> cb \<noteq> Remove_show x"
  by (cases cb) (auto simp: classList_remove_def)

lemma show_mem_fold:
  "''show'' \<in> set (classList (dom (fold (\<lambda>tm. run_callback (snd tm)) tms p) x)) \<longleftrightarrow>
     ''show'' \<in> set (classList (dom p x)) \<and> Remove_show x \<notin> snd ` set tms"
  by (induction tms arbitrary: p) (auto simp: show_mem_run_callback)

lemma show_mem_advance:
  "''show'' \<in> set (classList (dom (advance d p) x)) \<longleftrightarrow>
     ''show'' \<in> set (classList (dom p x)) \<and> (\<forall>tm \<in> set (timers p). fst tm \<le> now p + d \<longrightarrow> snd tm \<noteq> Remove_show x)"
  by (force simp: advance_def Let_def show_mem_fold)

lemma handler_nonempty:
  assumes "toast p = Some t" and "trim (textContent (dom p t)) \<noteq> []"
  shows "DOMContentLoaded_handler p =
    (Completed, p\<lparr>dom := (dom p)(t := classList_add (dom p t) ''show''),
                  timers := timers p @ [(now p + 2600, Remove_show t)]\<rparr>)"
  using assms by (simp add: DOMContentLoaded_handler_def setTimeout_def Let_def)

text \<open>
  Claim C5. When the toast element's trimmed text is not empty at page-ready, the
  \<open>show\<close> marker is on the element as soon as the listener returns, and the listener
  has set one timer, due 2600 milliseconds later, whose callback removes the marker.
  Time is the simulated clock of \<open>advance\<close>: once 2600 milliseconds or more have
  passed the marker is gone, and, when no other timer was pending at page-ready, it is
  still there after any shorter time.
\<close>

theorem toast_shown_then_hidden:
  assumes "toast p = Some t" and "trim (textContent (dom p t)) \<noteq> []"
  shows "fst (DOMContentLoaded_handler p) = Completed
    \<and> classList_contains (dom (snd (DOMContentLoaded_handler p)) t) ''show''
    \<and> now (snd (DOMContentLoaded_handler p)) = now p
    \<and> timers (snd (DOMContentLoaded_handler p)) = timers p @ [(now p + 2600, Remove_show t)]
    \<and> (\<forall>d. 2600 \<le> d \<longrightarrow>
          \<not> classList_contains (dom (advance d (snd (DOMContentLoaded_handler p))) t) ''show'')
    \<and> (timers p = [] \<longrightarrow> (\<forall>d. d < 2600 \<longrightarrow>
          classList_contains (dom (advance d (snd (DOMContentLoaded_handler p))) t) ''show''))"
  unfolding handler_nonempty [OF assms] classList_contains_def
  by (simp add: show_mem_advance classList_add_def)

text \<open>
  A toast with the text \<open>Item added\<close>: not shown before page-ready, shown after the
  listener, still shown 2599 milliseconds later and hidden at 2600.
\<close>

theorem toast_shown_then_hidden_witness:
  "toast (toast_ex item_added) = Some 0
    \<and> trim (textContent (dom (toast_ex item_added) 0)) \<noteq> []
    \<and> timers (toast_ex item_added) = []
    \<and> \<not> classList_contains (dom (toast_ex item_added) 0) ''show''
    \<and> classList_contains (dom (snd (DOMContentLoaded_handler (toast_ex item_added))) 0) ''show''
    \<and> classList_contains (dom (advance 2599 (snd (DOMContentLoaded_handler (toast_ex item_added)))) 0) ''show''
    \<and> \<not> classList_contains (dom (advance 2600 (snd (DOMContentLoaded_handler (toast_ex item_added)))) 0) ''show''"
  using toast_shown_then_hidden [of "toast_ex item_added" 0]
  by (simp add: toast_ex_def item_added_def blank_def trim_def is_white_space_def
      DOMContentLoaded_handler_def setTimeout_def advance_def Let_def
      classList_contains_def classList_add_def classList_remove_def)

text \<open>
  Claim C6. When the toast element's text is empty after trimming, which includes
  text made of white space only, the listener takes no action: it returns the page as
  it was, so the \<open>show\<close> marker is not applied and no timer is set.
\<close>

theorem empty_toast_never_shown:
  assumes "toast p = Some t"
  shows "(length (trim (textContent (dom p t))) = 0 \<longrightarrow> DOMContentLoaded_handler p = (Completed, p))
    \<and> (list_all is_white_space (textContent (dom p t)) \<longrightarrow> DOMContentLoaded_handler p = (Completed, p))"
  using assms by (simp add: DOMContentLoaded_handler_def Let_def trim_all_white_space)

text \<open>
  A toast with no text, and one whose text is a space, a line feed, a tab and a
  no-break space.
\<close>

theorem empty_toast_never_shown_witness:
  "toast (toast_ex []) = Some 0
    \<and> length (trim (textContent (dom (toast_ex []) 0))) = 0
    \<and> DOMContentLoaded_handler (toast_ex []) = (Completed, toast_ex [])
    \<and> toast (toast_ex [0x20, 0x0A, 0x09, 0xA0]) = Some 0
    \<and> list_all is_white_space (textContent (dom (toast_ex [0x20, 0x0A, 0x09, 0xA0]) 0))
    \<and> DOMContentLoaded_handler (toast_ex [0x20, 0x0A, 0x09, 0xA0]) = (Completed, toast_ex [0x20, 0x0A, 0x09, 0xA0])
    \<and> \<not> classList_contains (dom (snd (DOMContentLoaded_handler (toast_ex [0x20, 0x0A, 0x09, 0xA0]))) 0) ''show''
    \<and> timers (snd (DOMContentLoaded_handler (toast_ex [0x20, 0x0A, 0x09, 0xA0]))) = []"
  using empty_toast_never_shown [of "toast_ex []" 0]
    empty_toast_never_shown [of "toast_ex [0x20, 0x0A, 0x09, 0xA0]" 0]
  by (simp add: toast_ex_def blank_def trim_def is_white_space_def classList_contains_def
      DOMContentLoaded_handler_def)

text \<open>
  Claim C7. When the page has no element with the identifier \<open>toast\<close> at page-ready,
  the listener returns at line 4: it ends without an error and the page is unchanged.
\<close>

theorem absent_toast_is_noop:
  "toast p = None \<Longrightarrow> DOMContentLoaded_handler p = (Completed, p)"
  by (simp add: DOMContentLoaded_handler_def)

text \<open>
  The example page with the lookup returning \<open>null\<close>.
\<close>

theorem absent_toast_is_noop_witness:
  "toast ((toast_ex item_added)\<lparr>toast := None\<rparr>) = None
    \<and> DOMContentLoaded_handler ((toast_ex item_added)\<lparr>toast := None\<rparr>)
        = (Completed, (toast_ex item_added)\<lparr>toast := None\<rparr>)"
  using absent_toast_is_noop [of "(toast_ex item_added)\<lparr>toast := None\<rparr>"]
  by simp

end
